theory Spec2Isabelle
  imports Main "HOL-Library.Word"
begin

section \<open>Output paths: filepath.Clean and filepath.Join\<close>

text \<open>
  \<^verbatim>\<open>OnPublish\<close> (src/hls/main.go, line 82) derives the output directory as
  \<^verbatim>\<open>filepath.Join("public", filepath.Clean(cmd.PublishingName))\<close>.
  Both functions belong to Go's standard library (package path/filepath); they are
  embedded here byte by byte after the Unix implementation: no volume name, the
  separator is the slash, \<^verbatim>\<open>FromSlash\<close> is the identity.  The buffer
  \<open>out\<close> plays the role of the library's \<^verbatim>\<open>lazybuf\<close>, its length is the write
  index \<^verbatim>\<open>out.w\<close>, and the remaining input is \<^verbatim>\<open>path[r:]\<close>.
\<close>

text \<open>
  The inner loop of a \<^verbatim>\<open>..\<close> element: \<^verbatim>\<open>out.w--\<close> has been done by the caller,
  then \<^verbatim>\<open>for out.w > dotdot && !IsPathSeparator(out.index(out.w)) { out.w-- }\<close>.
\<close>

fun backtrack :: "string \<Rightarrow> nat \<Rightarrow> nat \<Rightarrow> nat" where
  "backtrack out dotdot w =
     (if w > dotdot \<and> out ! w \<noteq> CHR ''/'' then backtrack out dotdot (w - 1) else w)"

declare backtrack.simps [simp del]

function clean_loop :: "bool \<Rightarrow> string \<Rightarrow> string \<Rightarrow> nat \<Rightarrow> string" where
  "clean_loop rooted [] out dotdot = out"
| "clean_loop rooted (c # rest) out dotdot =
     (if c = CHR ''/'' then clean_loop rooted rest out dotdot
      else if c = CHR ''.'' \<and> (rest = [] \<or> hd rest = CHR ''/'')
        then clean_loop rooted rest out dotdot
      else if c = CHR ''.'' \<and> rest \<noteq> [] \<and> hd rest = CHR ''.''
              \<and> (tl rest = [] \<or> hd (tl rest) = CHR ''/'')
        then (if length out > dotdot
                then clean_loop rooted (tl rest)
                       (take (backtrack out dotdot (length out - 1)) out) dotdot
              else if rooted then clean_loop rooted (tl rest) out dotdot
              else clean_loop rooted (tl rest)
                     ((if length out > 0 then out @ ''/'' else out) @ ''..'')
                     (length ((if length out > 0 then out @ ''/'' else out) @ ''..'')))
      else clean_loop rooted (dropWhile (\<lambda>x. x \<noteq> CHR ''/'') rest)
             ((if (rooted \<and> length out \<noteq> 1) \<or> (\<not> rooted \<and> length out \<noteq> 0)
                 then out @ ''/'' else out)
              @ c # takeWhile (\<lambda>x. x \<noteq> CHR ''/'') rest)
             dotdot)"
  by pat_completeness auto
termination
proof (relation "measure (\<lambda>(rooted, path, out, dotdot). length path)")
  show "wf (measure (\<lambda>(rooted, path, out, dotdot). length path))"
    by simp
next
  fix rooted :: bool and c :: char and rest out :: string and dotdot :: nat
  show "((rooted, dropWhile (\<lambda>x. x \<noteq> CHR ''/'') rest,
          (if (rooted \<and> length out \<noteq> 1) \<or> (\<not> rooted \<and> length out \<noteq> 0)
             then out @ ''/'' else out)
          @ c # takeWhile (\<lambda>x. x \<noteq> CHR ''/'') rest, dotdot),
         (rooted, c # rest, out, dotdot))
        \<in> measure (\<lambda>(rooted, path, out, dotdot). length path)"
    using length_dropWhile_le [of "\<lambda>x. x \<noteq> CHR ''/''" rest]
    by (simp add: less_Suc_eq_le)
qed (auto simp: less_Suc_eq_le)

declare clean_loop.simps [simp del]

definition Clean :: "string \<Rightarrow> string" where
  "Clean path =
     (if path = [] then ''.''
      else let rooted = (hd path = CHR ''/'');
               out = (if rooted then clean_loop True (tl path) ''/'' 1
                      else clean_loop False path [] 0)
           in if out = [] then ''.'' else out)"

text \<open>\<^verbatim>\<open>strings.Join(elems, "/")\<close>.\<close>

fun join_sep :: "string list \<Rightarrow> string" where
  "join_sep [] = []"
| "join_sep [e] = e"
| "join_sep (e # es) = e @ ''/'' @ join_sep es"

text \<open>
  \<^verbatim>\<open>filepath.Join\<close>: the leading empty elements are skipped, the others are joined
  with the separator and the result is cleaned; no non-empty element gives the empty
  string.
\<close>

definition Join :: "string list \<Rightarrow> string" where
  "Join elems =
     (case dropWhile (\<lambda>e. e = []) elems of
        [] \<Rightarrow> []
      | e # es \<Rightarrow> Clean (join_sep (e # es)))"

text \<open>
  The output root of the program is the relative directory \<^verbatim>\<open>public\<close> (lines 38 and
  82).  A cleaned path lies under it when it is the root itself or starts with the root
  followed by a separator.
\<close>

definition under_root :: "string \<Rightarrow> bool" where
  "under_root p = (p = ''public'' \<or> take 7 p = ''public/'')"


section \<open>The operating system as seen by a handler\<close>

type_synonym byte = "8 word"

text \<open>
  An \<^verbatim>\<open>io.Reader\<close> handed to a frame callback: the bytes it yields, and whether
  reading it ends in an error instead of end-of-file.
\<close>

datatype reader = Reader (rbytes: "byte list") (rfails: bool)

text \<open>\<^verbatim>\<open>io.Copy(buf, r)\<close> into a fresh buffer: the bytes, or the read error.\<close>

definition io_Copy :: "reader \<Rightarrow> byte list option" where
  "io_Copy r = (if rfails r then None else Some (rbytes r))"

datatype tagtype = TagTypeAudio | TagTypeVideo | TagTypeScriptData

text \<open>
  The payload of an FLV tag.  The decoded header fields of the go-flv library are kept
  as the bytes they were decoded from; audio and video carry their materialised body.
\<close>

datatype tagdata =
    ScriptData "byte list"
  | AudioData "byte list" "byte list"
  | VideoData "byte list" "byte list"

record FlvTag =
  TagType :: tagtype
  Timestamp :: "32 word"
  Data :: tagdata

text \<open>What the transcoder reads from its standard input: the FLV header, then tags.\<close>

datatype flvitem = FlvHeader | FlvTagItem FlvTag

record pipe =
  popen :: bool
  pdata :: "flvitem list"

record proc =
  pargs :: "string list"
  pstdin :: nat
  palive :: bool

text \<open>Every call that leaves the handler, in the order it is made.\<close>

datatype event =
    EvLog string
  | EvMkdirAll string
  | EvStdinPipe
  | EvStart
  | EvWrite nat
  | EvClose nat
  | EvKill nat

text \<open>
  Directories created, pipes (a pipe's identifier is its index), processes (a process's
  identifier is its index) and the trace of calls.
\<close>

record world =
  dirs :: "string list"
  pipes :: "pipe list"
  procs :: "proc list"
  trace :: "event list"

definition world0 :: world where
  "world0 = \<lparr>dirs = [], pipes = [], procs = [], trace = []\<rparr>"

text \<open>
  What the environment answers during one callback: whether \<^verbatim>\<open>os.MkdirAll\<close>,
  \<^verbatim>\<open>Cmd.StdinPipe\<close> and \<^verbatim>\<open>Cmd.Start\<close> succeed, and whether the transcoder still
  accepts bytes on its input.
\<close>

record outcomes =
  mkdir_ok :: bool
  stdin_ok :: bool
  start_ok :: bool
  write_ok :: bool

definition emit :: "event \<Rightarrow> world \<Rightarrow> world" where
  "emit e w = w\<lparr>trace := trace w @ [e]\<rparr>"

definition logf :: "string \<Rightarrow> world \<Rightarrow> world" where
  "logf msg w = emit (EvLog msg) w"

definition MkdirAll :: "bool \<Rightarrow> string \<Rightarrow> world \<Rightarrow> bool \<times> world" where
  "MkdirAll ok path w =
     (if ok then (True, emit (EvMkdirAll path) (w\<lparr>dirs := dirs w @ [path]\<rparr>))
      else (False, emit (EvMkdirAll path) w))"

definition StdinPipe :: "bool \<Rightarrow> world \<Rightarrow> nat option \<times> world" where
  "StdinPipe ok w =
     (if ok
        then (Some (length (pipes w)),
              emit EvStdinPipe (w\<lparr>pipes := pipes w @ [\<lparr>popen = True, pdata = []\<rparr>]\<rparr>))
      else (None, emit EvStdinPipe w))"

definition set_closed :: "nat \<Rightarrow> pipe list \<Rightarrow> pipe list" where
  "set_closed p ps = (if p < length ps then ps[p := (ps ! p)\<lparr>popen := False\<rparr>] else ps)"

definition set_dead :: "nat \<Rightarrow> proc list \<Rightarrow> proc list" where
  "set_dead k ps = (if k < length ps then ps[k := (ps ! k)\<lparr>palive := False\<rparr>] else ps)"

text \<open>
  \<^verbatim>\<open>Cmd.Start\<close>: a new process reading from pipe \<open>p\<close>.  When it fails, the library
  itself closes the pipes it had opened for the command.
\<close>

definition Start :: "bool \<Rightarrow> string list \<Rightarrow> nat \<Rightarrow> world \<Rightarrow> nat option \<times> world" where
  "Start ok args p w =
     (if ok
        then (Some (length (procs w)),
              emit EvStart
                (w\<lparr>procs := procs w @ [\<lparr>pargs = args, pstdin = p, palive = True\<rparr>]\<rparr>))
      else (None, emit EvStart (w\<lparr>pipes := set_closed p (pipes w)\<rparr>)))"

text \<open>
  \<^verbatim>\<open>Close\<close> on the write end of a pipe: an error on a pipe already closed, which
  stays closed.
\<close>

definition pipe_Close :: "nat \<Rightarrow> world \<Rightarrow> bool \<times> world" where
  "pipe_Close p w =
     (p < length (pipes w) \<and> popen (pipes w ! p),
      emit (EvClose p) (w\<lparr>pipes := set_closed p (pipes w)\<rparr>))"

text \<open>\<^verbatim>\<open>Process.Kill\<close>: the kill signal is sent; nothing waits for the process.\<close>

definition Kill :: "nat \<Rightarrow> world \<Rightarrow> world" where
  "Kill k w = emit (EvKill k) (w\<lparr>procs := set_dead k (procs w)\<rparr>)"

text \<open>
  A write to pipe \<open>p\<close> delivers the item when the write end is open and the reading side
  accepts it; otherwise it fails and delivers nothing.
\<close>

definition can_write :: "nat \<Rightarrow> bool \<Rightarrow> world \<Rightarrow> bool" where
  "can_write p ok w = (p < length (pipes w) \<and> popen (pipes w ! p) \<and> ok)"

definition pipe_Write :: "nat \<Rightarrow> flvitem \<Rightarrow> bool \<Rightarrow> world \<Rightarrow> bool \<times> world" where
  "pipe_Write p x ok w =
     (if can_write p ok w
        then (True,
              emit (EvWrite p)
                (w\<lparr>pipes := (pipes w)[p := (pipes w ! p)\<lparr>pdata := pdata (pipes w ! p) @ [x]\<rparr>]\<rparr>))
      else (False, emit (EvWrite p) w))"


section \<open>The FLV encoder\<close>

text \<open>
  A \<^verbatim>\<open>*flv.Encoder\<close> is a pointer to a structure holding the writer it was created
  on: \<open>None\<close> is the nil pointer, \<open>Some p\<close> an encoder writing to pipe \<open>p\<close>.
  \<^verbatim>\<open>flv.NewEncoder\<close> writes the FLV header and fails when that write fails.
  \<^verbatim>\<open>Encode\<close> reads the writer out of its receiver, so on the nil pointer it
  panics (the result \<open>None\<close>); otherwise it reports whether the tag was written.
\<close>

definition NewEncoder :: "nat \<Rightarrow> bool \<Rightarrow> world \<Rightarrow> nat option \<times> world" where
  "NewEncoder p ok w =
     (case pipe_Write p FlvHeader ok w of
        (True, w') \<Rightarrow> (Some p, w')
      | (False, w') \<Rightarrow> (None, w'))"

definition Encode :: "nat option \<Rightarrow> FlvTag \<Rightarrow> bool \<Rightarrow> world \<Rightarrow> (bool \<times> world) option" where
  "Encode enc t ok w =
     (case enc of
        None \<Rightarrow> None
      | Some p \<Rightarrow> Some (pipe_Write p (FlvTagItem t) ok w))"

text \<open>
  The decoders of package \<^verbatim>\<open>flvtag\<close> are parameters of the model: each maps a payload
  to \<open>None\<close> (a decode error) or to the decoded value; for audio and video that is the
  header and the reader of the body that is left.
\<close>

record decoders =
  DecodeScriptData :: "byte list \<Rightarrow> byte list option"
  DecodeAudioData :: "reader \<Rightarrow> (byte list \<times> reader) option"
  DecodeVideoData :: "reader \<Rightarrow> (byte list \<times> reader) option"


section \<open>The handler\<close>

text \<open>
  \<^verbatim>\<open>exec.Cmd\<close>: the arguments and the \<^verbatim>\<open>Process\<close> field, which is nil until
  \<^verbatim>\<open>Start\<close> has succeeded.
\<close>

record Cmd =
  Args :: "string list"
  Process :: "nat option"

text \<open>The three pointer fields of \<^verbatim>\<open>Handler\<close> (lines 68 to 73); \<open>None\<close> is nil.\<close>

record Handler =
  ffmpegCmd :: "Cmd option"
  ffmpegIn :: "nat option"
  flvEnc :: "nat option"

text \<open>\<^verbatim>\<open>&Handler{}\<close>, as \<^verbatim>\<open>OnConnect\<close> builds it (line 54).\<close>

definition Handler0 :: Handler where
  "Handler0 = \<lparr>ffmpegCmd = None, ffmpegIn = None, flvEnc = None\<rparr>"

text \<open>The places where a callback returns an error, and a panic.\<close>

datatype error =
    ErrEmptyName
  | ErrMkdirAll
  | ErrStdinPipe
  | ErrStart
  | ErrNewEncoder
  | ErrDecode
  | ErrCopy

datatype result = Ok | Err error | Panic

text \<open>The taxonomy of the specification, section 7, for the errors of the code.\<close>

datatype kind = InvalidRequest | PathError | StartupError | DecodeError

fun kind_of :: "error \<Rightarrow> kind" where
  "kind_of ErrEmptyName = InvalidRequest"
| "kind_of ErrMkdirAll = PathError"
| "kind_of ErrStdinPipe = StartupError"
| "kind_of ErrStart = StartupError"
| "kind_of ErrNewEncoder = StartupError"
| "kind_of ErrDecode = DecodeError"
| "kind_of ErrCopy = DecodeError"

text \<open>The command line of lines 91 to 102.\<close>

definition ffmpeg_args :: "string \<Rightarrow> string list" where
  "ffmpeg_args m3u8Path =
     [''ffmpeg'', ''-fflags'', ''nobuffer'', ''-flags'', ''low_delay'', ''-i'', ''pipe:0'',
      ''-c:v'', ''copy'', ''-c:a'', ''aac'', ''-f'', ''hls'', ''-hls_time'', ''2'',
      ''-hls_list_size'', ''5'',
      ''-hls_flags'', ''split_by_time+delete_segments+program_date_time'', m3u8Path]"

text \<open>\<^verbatim>\<open>OnPublish\<close>, lines 75 to 128.\<close>

definition OnPublish :: "outcomes \<Rightarrow> string \<Rightarrow> Handler \<Rightarrow> world \<Rightarrow> result \<times> Handler \<times> world" where
  "OnPublish oc PublishingName h w =
     (let w1 = logf ''OnPublish'' w in
      if PublishingName = [] then (Err ErrEmptyName, h, w1)
      else
        let outputDir = Join [''public'', Clean PublishingName] in
        case MkdirAll (mkdir_ok oc) outputDir w1 of
          (False, w2) \<Rightarrow> (Err ErrMkdirAll, h, w2)
        | (True, w2) \<Rightarrow>
            let m3u8Path = Join [outputDir, ''index.m3u8''] in
            (case StdinPipe (stdin_ok oc) w2 of
               (None, w3) \<Rightarrow> (Err ErrStdinPipe, h, w3)
             | (Some ffmpegStdin, w3) \<Rightarrow>
                 (case Start (start_ok oc) (ffmpeg_args m3u8Path) ffmpegStdin w3 of
                    (None, w4) \<Rightarrow> (Err ErrStart, h, w4)
                  | (Some pid, w4) \<Rightarrow>
                      let h1 = h\<lparr>ffmpegCmd :=
                                   Some \<lparr>Args = ffmpeg_args m3u8Path, Process = Some pid\<rparr>,
                                 ffmpegIn := Some ffmpegStdin\<rparr> in
                      (case NewEncoder ffmpegStdin (write_ok oc) w4 of
                         (None, w5) \<Rightarrow>
                           (Err ErrNewEncoder, h1, Kill pid (snd (pipe_Close ffmpegStdin w5)))
                       | (Some enc, w5) \<Rightarrow> (Ok, h1\<lparr>flvEnc := Some enc\<rparr>, w5)))))"

text \<open>\<^verbatim>\<open>OnSetDataFrame\<close>, lines 130 to 147.\<close>

definition OnSetDataFrame ::
  "decoders \<Rightarrow> outcomes \<Rightarrow> 32 word \<Rightarrow> byte list \<Rightarrow> Handler \<Rightarrow> world \<Rightarrow> result \<times> Handler \<times> world" where
  "OnSetDataFrame lib oc timestamp payload h w =
     (case DecodeScriptData lib payload of
        None \<Rightarrow> (Ok, h, logf ''Failed to decode script data'' w)
      | Some script \<Rightarrow>
          (case Encode (flvEnc h)
                  \<lparr>TagType = TagTypeScriptData, Timestamp = timestamp, Data = ScriptData script\<rparr>
                  (write_ok oc) w of
             None \<Rightarrow> (Panic, h, w)
           | Some (True, w') \<Rightarrow> (Ok, h, w')
           | Some (False, w') \<Rightarrow> (Ok, h, logf ''Failed to write script data'' w')))"

text \<open>\<^verbatim>\<open>OnAudio\<close>, lines 149 to 169.\<close>

definition OnAudio ::
  "decoders \<Rightarrow> outcomes \<Rightarrow> 32 word \<Rightarrow> reader \<Rightarrow> Handler \<Rightarrow> world \<Rightarrow> result \<times> Handler \<times> world" where
  "OnAudio lib oc timestamp payload h w =
     (case DecodeAudioData lib payload of
        None \<Rightarrow> (Err ErrDecode, h, w)
      | Some (hdr, body) \<Rightarrow>
          (case io_Copy body of
             None \<Rightarrow> (Err ErrCopy, h, w)
           | Some buf \<Rightarrow>
               (case Encode (flvEnc h)
                       \<lparr>TagType = TagTypeAudio, Timestamp = timestamp, Data = AudioData hdr buf\<rparr>
                       (write_ok oc) w of
                  None \<Rightarrow> (Panic, h, w)
                | Some (True, w') \<Rightarrow> (Ok, h, w')
                | Some (False, w') \<Rightarrow> (Ok, h, logf ''Failed to write audio'' w'))))"

text \<open>\<^verbatim>\<open>OnVideo\<close>, lines 171 to 191.\<close>

definition OnVideo ::
  "decoders \<Rightarrow> outcomes \<Rightarrow> 32 word \<Rightarrow> reader \<Rightarrow> Handler \<Rightarrow> world \<Rightarrow> result \<times> Handler \<times> world" where
  "OnVideo lib oc timestamp payload h w =
     (case DecodeVideoData lib payload of
        None \<Rightarrow> (Err ErrDecode, h, w)
      | Some (hdr, body) \<Rightarrow>
          (case io_Copy body of
             None \<Rightarrow> (Err ErrCopy, h, w)
           | Some buf \<Rightarrow>
               (case Encode (flvEnc h)
                       \<lparr>TagType = TagTypeVideo, Timestamp = timestamp, Data = VideoData hdr buf\<rparr>
                       (write_ok oc) w of
                  None \<Rightarrow> (Panic, h, w)
                | Some (True, w') \<Rightarrow> (Ok, h, w')
                | Some (False, w') \<Rightarrow> (Ok, h, logf ''Failed to write video'' w'))))"

text \<open>
  \<^verbatim>\<open>OnClose\<close>, lines 193 to 204.  \<^verbatim>\<open>h.ffmpegIn.Close()\<close> on a nil interface
  panics; the errors of \<^verbatim>\<open>Close\<close> and \<^verbatim>\<open>Kill\<close> are discarded.
\<close>

definition OnClose :: "Handler \<Rightarrow> world \<Rightarrow> result \<times> Handler \<times> world" where
  "OnClose h w =
     (let w1 = logf ''Client disconnected'' w in
      case (if flvEnc h \<noteq> None
              then (case ffmpegIn h of
                      None \<Rightarrow> None
                    | Some p \<Rightarrow> Some (snd (pipe_Close p w1)))
            else Some w1) of
        None \<Rightarrow> (Panic, h, w1)
      | Some w2 \<Rightarrow>
          (case ffmpegCmd h of
             None \<Rightarrow> (Ok, h, w2)
           | Some cmd \<Rightarrow>
               (case Process cmd of
                  None \<Rightarrow> (Ok, h, w2)
                | Some pid \<Rightarrow> (Ok, h, Kill pid w2))))"


section \<open>Sequences of callbacks\<close>

datatype call =
    Publish outcomes string
  | SetDataFrame outcomes "32 word" "byte list"
  | Audio outcomes "32 word" reader
  | Video outcomes "32 word" reader
  | Close

fun step :: "decoders \<Rightarrow> call \<Rightarrow> Handler \<Rightarrow> world \<Rightarrow> result \<times> Handler \<times> world" where
  "step lib (Publish oc name) h w = OnPublish oc name h w"
| "step lib (SetDataFrame oc ts payload) h w = OnSetDataFrame lib oc ts payload h w"
| "step lib (Audio oc ts payload) h w = OnAudio lib oc ts payload h w"
| "step lib (Video oc ts payload) h w = OnVideo lib oc ts payload h w"
| "step lib Close h w = OnClose h w"

text \<open>
  The protocol layer delivers the callbacks of one connection one after the other.  A
  panic ends the run: the calls after it are not made.
\<close>

fun run :: "decoders \<Rightarrow> call list \<Rightarrow> Handler \<Rightarrow> world \<Rightarrow> result list \<times> Handler \<times> world" where
  "run lib [] h w = ([], h, w)"
| "run lib (c # cs) h w =
     (case step lib c h w of
        (Panic, h', w') \<Rightarrow> ([Panic], h', w')
      | (r, h', w') \<Rightarrow>
          (case run lib cs h' w' of (rs, h'', w'') \<Rightarrow> (r # rs, h'', w'')))"

text \<open>The processes that have been started and not killed, and the open pipes.\<close>

definition live_procs :: "world \<Rightarrow> nat list" where
  "live_procs w = filter (\<lambda>k. palive (procs w ! k)) [0 ..< length (procs w)]"

definition open_pipes :: "world \<Rightarrow> nat list" where
  "open_pipes w = filter (\<lambda>p. popen (pipes w ! p)) [0 ..< length (pipes w)]"

text \<open>Environments and decoders for concrete runs.\<close>

definition all_ok :: outcomes where
  "all_ok = \<lparr>mkdir_ok = True, stdin_ok = True, start_ok = True, write_ok = True\<rparr>"

text \<open>
  A decoder that rejects the empty payload and splits any other payload after its first
  byte.
\<close>

definition split_first :: "reader \<Rightarrow> (byte list \<times> reader) option" where
  "split_first r =
     (case rbytes r of
        [] \<Rightarrow> None
      | b # bs \<Rightarrow> Some ([b], Reader bs (rfails r)))"

definition lib0 :: decoders where
  "lib0 = \<lparr>DecodeScriptData = (\<lambda>bs. if bs = [] then None else Some bs),
           DecodeAudioData = split_first,
           DecodeVideoData = split_first\<rparr>"

definition no_write :: outcomes where
  "no_write = \<lparr>mkdir_ok = True, stdin_ok = True, start_ok = True, write_ok = False\<rparr>"

definition no_start :: outcomes where
  "no_start = \<lparr>mkdir_ok = True, stdin_ok = True, start_ok = False, write_ok = True\<rparr>"

text \<open>
  The handler and the world after the first publish of \<^verbatim>\<open>stream1\<close> on a fresh
  connection with everything succeeding, and the world after the close that follows.
\<close>

definition h_pub :: Handler where
  "h_pub = \<lparr>ffmpegCmd = Some \<lparr>Args = ffmpeg_args ''public/stream1/index.m3u8'',
                                Process = Some 0\<rparr>,
            ffmpegIn = Some 0, flvEnc = Some 0\<rparr>"

definition w_pub :: world where
  "w_pub = \<lparr>dirs = [''public/stream1''],
            pipes = [\<lparr>popen = True, pdata = [FlvHeader]\<rparr>],
            procs = [\<lparr>pargs = ffmpeg_args ''public/stream1/index.m3u8'', pstdin = 0,
                      palive = True\<rparr>],
            trace = [EvLog ''OnPublish'', EvMkdirAll ''public/stream1'', EvStdinPipe, EvStart,
                     EvWrite 0]\<rparr>"

definition w_closed :: world where
  "w_closed = \<lparr>dirs = [''public/stream1''],
               pipes = [\<lparr>popen = False, pdata = [FlvHeader]\<rparr>],
               procs = [\<lparr>pargs = ffmpeg_args ''public/stream1/index.m3u8'', pstdin = 0,
                         palive = False\<rparr>],
               trace = [EvLog ''OnPublish'', EvMkdirAll ''public/stream1'', EvStdinPipe, EvStart,
                        EvWrite 0, EvLog ''Client disconnected'', EvClose 0, EvKill 0]\<rparr>"

definition w_after :: world where
  "w_after = w_closed\<lparr>trace := trace w_closed @ [EvWrite 0, EvLog ''Failed to write video'']\<rparr>"

text \<open>
  A decoder that accepts the empty metadata payload (no key follows) and no other, and
  splits audio and video payloads as \<open>lib0\<close> does.
\<close>

definition lib1 :: decoders where
  "lib1 = \<lparr>DecodeScriptData = (\<lambda>bs. if bs = [] then Some [] else None),
           DecodeAudioData = split_first,
           DecodeVideoData = split_first\<rparr>"

text \<open>
  The calls that \<^verbatim>\<open>OnClose\<close> makes on a handler, read off lines 193 to 204: the log
  line; \<^verbatim>\<open>Close\<close> on the pipe when the encoder field is set (on a nil pipe handle the
  call panics there and makes no further call); \<^verbatim>\<open>Kill\<close> on the process when the
  command field and its \<^verbatim>\<open>Process\<close> are set.
\<close>

definition close_calls :: "Handler \<Rightarrow> event list" where
  "close_calls h =
     [EvLog ''Client disconnected'']
     @ (if flvEnc h \<noteq> None
          then (case ffmpegIn h of None \<Rightarrow> [] | Some p \<Rightarrow> [EvClose p])
        else [])
     @ (if flvEnc h \<noteq> None \<and> ffmpegIn h = None then []
        else (case ffmpegCmd h of
                None \<Rightarrow> []
              | Some cmd \<Rightarrow> (case Process cmd of None \<Rightarrow> [] | Some pid \<Rightarrow> [EvKill pid])))"

text \<open>A metadata frame whose payload the decoder rejects.\<close>

fun malformed_meta :: "decoders \<Rightarrow> call \<Rightarrow> bool" where
  "malformed_meta lib (SetDataFrame oc ts payload) = (DecodeScriptData lib payload = None)"
| "malformed_meta lib c = False"

text \<open>The three frame callbacks.\<close>

fun is_frame :: "call \<Rightarrow> bool" where
  "is_frame (SetDataFrame oc ts payload) = True"
| "is_frame (Audio oc ts payload) = True"
| "is_frame (Video oc ts payload) = True"
| "is_frame c = False"


section \<open>Concrete runs\<close>

lemma publish_stream1: "OnPublish all_ok ''stream1'' Handler0 world0 = (Ok, h_pub, w_pub)"
  by code_simp

lemma close_published: "OnClose h_pub w_pub = (Ok, h_pub, w_closed)"
  by code_simp

lemma close_closed:
  "OnClose h_pub w_closed
     = (Ok, h_pub,
        w_closed\<lparr>trace := trace w_closed @ [EvLog ''Client disconnected'', EvClose 0, EvKill 0]\<rparr>)"
  by code_simp


section \<open>Publishing\<close>

text \<open>
  C6.  A publish request with the empty name returns the error of line 79, which is an
  \<open>InvalidRequest\<close>; the handler is returned as it was, and the world differs from the
  one before the call by the log line of line 76 alone: no directory is created, no pipe
  is opened and no process is started, whatever the environment would have answered.
\<close>

theorem OnPublish_empty_name:
  "OnPublish oc [] h w = (Err ErrEmptyName, h, w\<lparr>trace := trace w @ [EvLog ''OnPublish'']\<rparr>)
   \<and> kind_of ErrEmptyName = InvalidRequest"
  by (simp add: OnPublish_def logf_def emit_def)

text \<open>
  C1.  The claim asks that a name whose output path leaves the output root be refused
  with a \<open>PathError\<close> before anything is created.  The code cleans the name and joins it
  to \<^verbatim>\<open>public\<close>, and \<^verbatim>\<open>Join\<close> cleans once more, which resolves the \<^verbatim>\<open>..\<close>
  elements against the root itself: for the name \<^verbatim>\<open>../../etc\<close> the directory is
  \<^verbatim>\<open>../etc\<close>, it is not under \<^verbatim>\<open>public\<close>, no check stands between the join and
  \<^verbatim>\<open>MkdirAll\<close>, and where the file system allows it the publish succeeds with that
  directory created and the transcoder writing its playlist into it.
\<close>

theorem publish_dotdot_escapes_root:
  "Clean ''../../etc'' = ''../../etc''
   \<and> Join [''public'', Clean ''../../etc''] = ''../etc''
   \<and> \<not> under_root ''../etc''
   \<and> fst (OnPublish all_ok ''../../etc'' Handler0 world0) = Ok
   \<and> dirs (snd (snd (OnPublish all_ok ''../../etc'' Handler0 world0))) = [''../etc'']
   \<and> map pargs (procs (snd (snd (OnPublish all_ok ''../../etc'' Handler0 world0))))
       = [ffmpeg_args ''../etc/index.m3u8'']"
  by code_simp

text \<open>
  C2.  The claim asks that a second publish on a handler that is already publishing start
  no second process and leak nothing.  \<^verbatim>\<open>OnPublish\<close> never looks at the fields of the
  handler before it overwrites them (lines 116, 117 and 125): after two successful
  publishes two processes are alive and two pipes are open, the handler refers to the
  second of each, and the close that follows releases those and leaves the first process
  alive and the first pipe open.
\<close>

theorem second_publish_spawns_second_process:
  "fst (run lib0 [Publish all_ok ''stream1'', Publish all_ok ''stream1''] Handler0 world0)
     = [Ok, Ok]
   \<and> live_procs (snd (snd (run lib0 [Publish all_ok ''stream1'', Publish all_ok ''stream1'']
                               Handler0 world0))) = [0, 1]
   \<and> open_pipes (snd (snd (run lib0 [Publish all_ok ''stream1'', Publish all_ok ''stream1'']
                               Handler0 world0))) = [0, 1]
   \<and> ffmpegIn (fst (snd (run lib0 [Publish all_ok ''stream1'', Publish all_ok ''stream1'']
                             Handler0 world0))) = Some 1
   \<and> fst (run lib0 [Publish all_ok ''stream1'', Publish all_ok ''stream1'', Close]
            Handler0 world0) = [Ok, Ok, Ok]
   \<and> live_procs (snd (snd (run lib0 [Publish all_ok ''stream1'', Publish all_ok ''stream1'',
                                     Close] Handler0 world0))) = [0]
   \<and> open_pipes (snd (snd (run lib0 [Publish all_ok ''stream1'', Publish all_ok ''stream1'',
                                     Close] Handler0 world0))) = [0]"
  by code_simp

text \<open>
  C5.  The claim asks that a failed start-up leave no pipe and no process handle in the
  handler.  When the process cannot be started the handler is returned untouched and the
  pipe is closed.  When the encoder cannot be created (its header cannot be written),
  the error is a \<open>StartupError\<close>, the pipe is closed and the process is killed, and the
  encoder field stays nil; but the command and the pipe had been stored in the handler
  before the encoder was created (lines 116 and 117) and the error path does not take
  them out again, so the handler goes on holding both.
\<close>

theorem encoder_failure_keeps_handles:
  "OnPublish no_start ''stream1'' Handler0 world0
     = (Err ErrStart, Handler0,
        \<lparr>dirs = [''public/stream1''], pipes = [\<lparr>popen = False, pdata = []\<rparr>], procs = [],
         trace = [EvLog ''OnPublish'', EvMkdirAll ''public/stream1'', EvStdinPipe, EvStart]\<rparr>)
   \<and> fst (OnPublish no_write ''stream1'' Handler0 world0) = Err ErrNewEncoder
   \<and> kind_of ErrNewEncoder = StartupError
   \<and> open_pipes (snd (snd (OnPublish no_write ''stream1'' Handler0 world0))) = []
   \<and> live_procs (snd (snd (OnPublish no_write ''stream1'' Handler0 world0))) = []
   \<and> flvEnc (fst (snd (OnPublish no_write ''stream1'' Handler0 world0))) = None
   \<and> ffmpegIn (fst (snd (OnPublish no_write ''stream1'' Handler0 world0))) = Some 0
   \<and> ffmpegCmd (fst (snd (OnPublish no_write ''stream1'' Handler0 world0)))
       = Some \<lparr>Args = ffmpeg_args ''public/stream1/index.m3u8'', Process = Some 0\<rparr>"
  by code_simp


section \<open>Frames\<close>

lemma malformed_meta_step:
  "malformed_meta lib c \<Longrightarrow>
     step lib c h w = (Ok, h, emit (EvLog ''Failed to decode script data'') w)"
  by (cases c) (simp_all add: OnSetDataFrame_def logf_def)

lemma emit_then_append:
  "(emit e w)\<lparr>trace := trace (emit e w) @ es\<rparr> = w\<lparr>trace := trace w @ e # es\<rparr>"
  by (simp add: emit_def)

text \<open>
  C7.  A run of metadata frames whose payloads all fail to decode: every call returns
  success, the handler at the end is the handler at the start, and the world has changed
  by one log line per frame and nothing else: no byte is written, nothing is closed or
  killed, and no call of the run panics or returns an error.
\<close>

theorem malformed_metadata_dropped:
  "\<forall>c\<in>set cs. malformed_meta lib c \<Longrightarrow>
     run lib cs h w =
       (replicate (length cs) Ok, h,
        w\<lparr>trace := trace w @ replicate (length cs) (EvLog ''Failed to decode script data'')\<rparr>)"
proof (induction cs arbitrary: w)
  case Nil
  show ?case by simp
next
  case (Cons c cs)
  from Cons.prems have c: "malformed_meta lib c" and cs: "\<forall>c\<in>set cs. malformed_meta lib c"
    by simp_all
  show ?case
    by (simp add: malformed_meta_step [OF c] Cons.IH [OF cs] emit_then_append)
qed

theorem malformed_metadata_dropped_witness:
  "malformed_meta lib0 (SetDataFrame all_ok 0 [])
   \<and> malformed_meta lib0 (SetDataFrame all_ok 40 [])
   \<and> run lib0 [SetDataFrame all_ok 0 [], SetDataFrame all_ok 40 []] h_pub w_pub
       = ([Ok, Ok], h_pub,
          w_pub\<lparr>trace := trace w_pub @ [EvLog ''Failed to decode script data'',
                                         EvLog ''Failed to decode script data'']\<rparr>)"
  using malformed_metadata_dropped
          [of "[SetDataFrame all_ok 0 [], SetDataFrame all_ok 40 []]" lib0 h_pub w_pub]
  by (simp add: lib0_def)

text \<open>
  C8.  An audio or video payload that fails to decode: the callback returns the decode
  error to its caller, and the handler and the world are those before the call, so
  nothing was handed to the encoder and nothing was written or logged.
\<close>

theorem media_decode_failure_fatal:
  "(DecodeAudioData lib payload = None \<longrightarrow>
      OnAudio lib oc ts payload h w = (Err ErrDecode, h, w))
   \<and> (DecodeVideoData lib payload = None \<longrightarrow>
      OnVideo lib oc ts payload h w = (Err ErrDecode, h, w))"
  by (simp add: OnAudio_def OnVideo_def)

theorem media_decode_failure_fatal_witness:
  "DecodeAudioData lib0 (Reader [] False) = None
   \<and> DecodeVideoData lib0 (Reader [] False) = None
   \<and> OnAudio lib0 all_ok 40 (Reader [] False) h_pub w_pub = (Err ErrDecode, h_pub, w_pub)
   \<and> OnVideo lib0 all_ok 40 (Reader [] False) h_pub w_pub = (Err ErrDecode, h_pub, w_pub)"
  using media_decode_failure_fatal [of lib0 "Reader [] False" all_ok 40 h_pub w_pub]
  by (simp add: lib0_def split_first_def)

text \<open>
  C9.  A handler with an encoder on pipe \<open>p\<close>, an audio or video payload that decodes and
  whose body can be copied, and a write to the pipe that fails: the callback attempts the
  write, logs the failure and returns success; the handler is unchanged and nothing
  reaches the pipe.
\<close>

theorem write_failure_not_fatal:
  "flvEnc h = Some p \<Longrightarrow> \<not> can_write p (write_ok oc) w \<Longrightarrow>
     (DecodeAudioData lib r = Some (hdr, body) \<and> io_Copy body = Some buf \<longrightarrow>
        OnAudio lib oc ts r h w
          = (Ok, h, w\<lparr>trace := trace w @ [EvWrite p, EvLog ''Failed to write audio'']\<rparr>))
   \<and> (DecodeVideoData lib r = Some (hdr, body) \<and> io_Copy body = Some buf \<longrightarrow>
        OnVideo lib oc ts r h w
          = (Ok, h, w\<lparr>trace := trace w @ [EvWrite p, EvLog ''Failed to write video'']\<rparr>))"
  by (simp add: OnAudio_def OnVideo_def Encode_def pipe_Write_def logf_def emit_def)

theorem write_failure_not_fatal_witness:
  "flvEnc h_pub = Some 0
   \<and> \<not> can_write 0 (write_ok no_write) w_pub
   \<and> DecodeAudioData lib0 (Reader [1, 2] False) = Some ([1], Reader [2] False)
   \<and> DecodeVideoData lib0 (Reader [1, 2] False) = Some ([1], Reader [2] False)
   \<and> io_Copy (Reader [2] False) = Some [2]
   \<and> OnAudio lib0 no_write 40 (Reader [1, 2] False) h_pub w_pub
       = (Ok, h_pub, w_pub\<lparr>trace := trace w_pub @ [EvWrite 0, EvLog ''Failed to write audio'']\<rparr>)
   \<and> OnVideo lib0 no_write 40 (Reader [1, 2] False) h_pub w_pub
       = (Ok, h_pub, w_pub\<lparr>trace := trace w_pub @ [EvWrite 0, EvLog ''Failed to write video'']\<rparr>)"
  using write_failure_not_fatal
          [of h_pub 0 no_write w_pub lib0 "Reader [1, 2] False" "[1]" "Reader [2] False" "[2]" 40]
  by (simp add: lib0_def split_first_def io_Copy_def h_pub_def no_write_def can_write_def)

text \<open>
  C10.  A handler whose encoder field is nil, as it is until a publish has succeeded: a
  metadata payload that decodes, and an audio or video payload that decodes and whose
  body can be copied, reach \<^verbatim>\<open>h.flvEnc.Encode\<close> on the nil pointer, and the callback
  panics: it neither returns an error nor drops the frame.
\<close>

theorem frame_before_publish_panics:
  "flvEnc h = None \<Longrightarrow>
     (DecodeScriptData lib bs = Some script \<longrightarrow>
        OnSetDataFrame lib oc ts bs h w = (Panic, h, w))
   \<and> (DecodeAudioData lib r = Some (hdr, body) \<and> io_Copy body = Some buf \<longrightarrow>
        OnAudio lib oc ts r h w = (Panic, h, w))
   \<and> (DecodeVideoData lib r = Some (hdr, body) \<and> io_Copy body = Some buf \<longrightarrow>
        OnVideo lib oc ts r h w = (Panic, h, w))"
  by (simp add: OnSetDataFrame_def OnAudio_def OnVideo_def Encode_def)

theorem frame_before_publish_panics_witness:
  "flvEnc Handler0 = None
   \<and> DecodeScriptData lib0 [1, 2] = Some [1, 2]
   \<and> DecodeAudioData lib0 (Reader [1, 2] False) = Some ([1], Reader [2] False)
   \<and> DecodeVideoData lib0 (Reader [1, 2] False) = Some ([1], Reader [2] False)
   \<and> io_Copy (Reader [2] False) = Some [2]
   \<and> OnSetDataFrame lib0 all_ok 40 [1, 2] Handler0 world0 = (Panic, Handler0, world0)
   \<and> OnAudio lib0 all_ok 40 (Reader [1, 2] False) Handler0 world0 = (Panic, Handler0, world0)
   \<and> OnVideo lib0 all_ok 40 (Reader [1, 2] False) Handler0 world0 = (Panic, Handler0, world0)"
  using frame_before_publish_panics
          [of Handler0 lib0 "[1, 2]" "[1, 2]" all_ok 40 world0 "Reader [1, 2] False" "[1]"
              "Reader [2] False" "[2]"]
  by (simp add: lib0_def split_first_def io_Copy_def Handler0_def)


section \<open>Closing\<close>

lemma set_closed_idem: "set_closed p (set_closed p ps) = set_closed p ps"
  by (simp add: set_closed_def)

lemma set_dead_idem: "set_dead k (set_dead k ps) = set_dead k ps"
  by (simp add: set_dead_def)

lemma set_closed_not_open: "p < length ps \<Longrightarrow> \<not> popen (set_closed p ps ! p)"
  by (simp add: set_closed_def)

lemma length_set_closed: "length (set_closed p ps) = length ps"
  by (simp add: set_closed_def)

lemma pipe_Close_closes: "\<not> can_write p ok (snd (pipe_Close p w))"
  by (auto simp: pipe_Close_def emit_def can_write_def set_closed_not_open length_set_closed)

lemma can_write_Kill: "can_write p ok (Kill k w) = can_write p ok w"
  by (simp add: Kill_def emit_def can_write_def)

lemma OnClose_closes:
  assumes "flvEnc h = Some p" and "ffmpegIn h = Some p" and "OnClose h w = (r, h1, w1)"
  shows "r = Ok \<and> h1 = h \<and> \<not> can_write p True w1"
  using assms
  by (auto simp: OnClose_def Let_def pipe_Close_closes can_write_Kill split: option.splits)

text \<open>
  C3.  As stated the claim fails: \<^verbatim>\<open>OnClose\<close> keeps no record of having run and
  clears no field, so the second call closes the pipe and kills the process again.  After
  a publish and one close the trace holds one \<^verbatim>\<open>Close\<close> of pipe 0 and one
  \<^verbatim>\<open>Kill\<close> of process 0; after a second close it holds two of each, so the second
  call is no no-op.
\<close>

theorem OnClose_twice_not_noop:
  "run lib0 [Publish all_ok ''stream1'', Close] Handler0 world0 = ([Ok, Ok], h_pub, w_closed)
   \<and> trace w_closed
       = [EvLog ''OnPublish'', EvMkdirAll ''public/stream1'', EvStdinPipe, EvStart, EvWrite 0,
          EvLog ''Client disconnected'', EvClose 0, EvKill 0]
   \<and> run lib0 [Publish all_ok ''stream1'', Close, Close] Handler0 world0
       = ([Ok, Ok, Ok], h_pub,
          w_closed\<lparr>trace :=
            [EvLog ''OnPublish'', EvMkdirAll ''public/stream1'', EvStdinPipe, EvStart, EvWrite 0,
             EvLog ''Client disconnected'', EvClose 0, EvKill 0,
             EvLog ''Client disconnected'', EvClose 0, EvKill 0]\<rparr>)"
  by (simp add: publish_stream1 close_published close_closed) (simp add: w_closed_def)

lemma close_calls_nonempty: "close_calls h \<noteq> []"
  by (simp add: close_calls_def)

lemma OnClose_char:
  assumes "OnClose h w = (r, h', w')"
  shows "h' = h"
    and "r = (if flvEnc h \<noteq> None \<and> ffmpegIn h = None then Panic else Ok)"
    and "dirs w' = dirs w"
    and "trace w' = trace w @ close_calls h"
    and "pipes w' = (if flvEnc h \<noteq> None
                      then (case ffmpegIn h of None \<Rightarrow> pipes w
                            | Some p \<Rightarrow> set_closed p (pipes w))
                    else pipes w)"
    and "procs w' = (if flvEnc h \<noteq> None \<and> ffmpegIn h = None then procs w
                    else (case ffmpegCmd h of None \<Rightarrow> procs w
                          | Some cmd \<Rightarrow> (case Process cmd of None \<Rightarrow> procs w
                                        | Some pid \<Rightarrow> set_dead pid (procs w))))"
  using assms
  by (auto simp: OnClose_def Let_def logf_def emit_def pipe_Close_def Kill_def close_calls_def
      split: option.splits if_splits)

text \<open>
  C3, amended.  For every handler and world, a second \<^verbatim>\<open>OnClose\<close> ends as the first
  did (both return, or both panic on a nil pipe handle under a set encoder), leaves the
  handler as it was, and leaves the pipes, the processes and the directories as the first
  call left them.  It is not a no-op: each of the two calls makes the calls of
  \<open>close_calls\<close> (the log line, \<^verbatim>\<open>Close\<close> on the pipe when the encoder is set,
  \<^verbatim>\<open>Kill\<close> on the process when the command and its process are set), the second
  exactly as the first, so the world after the second call differs from the world after
  the first; the errors of the repeated \<^verbatim>\<open>Close\<close> and \<^verbatim>\<open>Kill\<close> are discarded.
\<close>

theorem OnClose_twice_same_resources:
  "OnClose h w = (r1, h1, w1) \<Longrightarrow> OnClose h1 w1 = (r2, h2, w2) \<Longrightarrow>
     r2 = r1 \<and> h1 = h \<and> h2 = h
     \<and> pipes w2 = pipes w1 \<and> procs w2 = procs w1 \<and> dirs w2 = dirs w1
     \<and> trace w1 = trace w @ close_calls h
     \<and> trace w2 = trace w1 @ close_calls h
     \<and> close_calls h \<noteq> [] \<and> w2 \<noteq> w1
     \<and> r1 = (if flvEnc h \<noteq> None \<and> ffmpegIn h = None then Panic else Ok)"
proof -
  assume first: "OnClose h w = (r1, h1, w1)" and second: "OnClose h1 w1 = (r2, h2, w2)"
  note a = OnClose_char [OF first]
  from a(1) second have second': "OnClose h w1 = (r2, h2, w2)" by simp
  note b = OnClose_char [OF second']
  have ps: "pipes w2 = pipes w1"
    using a(5) b(5) by (simp add: set_closed_idem split: option.splits)
  have qs: "procs w2 = procs w1"
    using a(6) b(6) by (simp add: set_dead_idem split: option.splits)
  have ne: "w2 \<noteq> w1"
  proof
    assume "w2 = w1"
    with b(4) have "close_calls h = []" by simp
    with close_calls_nonempty show False by blast
  qed
  from a b ps qs ne close_calls_nonempty show ?thesis by simp
qed

theorem OnClose_twice_same_resources_witness:
  "OnClose h_pub w_pub = (Ok, h_pub, w_closed)
   \<and> OnClose h_pub w_closed
       = (Ok, h_pub,
          w_closed\<lparr>trace := trace w_closed @ [EvLog ''Client disconnected'', EvClose 0, EvKill 0]\<rparr>)
   \<and> close_calls h_pub = [EvLog ''Client disconnected'', EvClose 0, EvKill 0]
   \<and> trace w_closed = trace w_pub @ [EvLog ''Client disconnected'', EvClose 0, EvKill 0]
   \<and> w_closed\<lparr>trace := trace w_closed @ [EvLog ''Client disconnected'', EvClose 0, EvKill 0]\<rparr>
       \<noteq> w_closed"
proof -
  have cc: "close_calls h_pub = [EvLog ''Client disconnected'', EvClose 0, EvKill 0]"
    by (simp add: close_calls_def h_pub_def)
  note twice = OnClose_twice_same_resources [OF close_published close_closed]
  from twice have ne:
    "w_closed\<lparr>trace := trace w_closed @ [EvLog ''Client disconnected'', EvClose 0, EvKill 0]\<rparr>
       \<noteq> w_closed"
    by blast
  from twice have "trace w_closed = trace w_pub @ close_calls h_pub"
    by blast
  with cc have tr:
    "trace w_closed = trace w_pub @ [EvLog ''Client disconnected'', EvClose 0, EvKill 0]"
    by simp
  from close_published close_closed cc tr ne show ?thesis
    by blast
qed

lemma frame_step_closed:
  assumes "is_frame c" and "flvEnc h = Some p" and "\<not> can_write p True w"
    and "step lib c h w = (r, h', w')"
  shows "r \<noteq> Panic \<and> h' = h \<and> pipes w' = pipes w \<and> procs w' = procs w \<and> dirs w' = dirs w"
  using assms
  by (cases c)
     (auto simp: OnSetDataFrame_def OnAudio_def OnVideo_def Encode_def pipe_Write_def
        can_write_def logf_def emit_def split: option.splits if_splits prod.splits)

lemma frames_run_closed:
  assumes "\<forall>c\<in>set cs. is_frame c" and "flvEnc h = Some p" and "\<not> can_write p True w"
    and "run lib cs h w = (rs, h', w')"
  shows "Panic \<notin> set rs \<and> h' = h \<and> pipes w' = pipes w \<and> procs w' = procs w \<and> dirs w' = dirs w"
  using assms
proof (induction cs arbitrary: w rs h' w')
  case Nil
  then show ?case by simp
next
  case (Cons c cs)
  obtain r h1 w1 where st: "step lib c h w = (r, h1, w1)"
    by (cases "step lib c h w") auto
  from Cons.prems have fc: "is_frame c" and fcs: "\<forall>c\<in>set cs. is_frame c" by simp_all
  from frame_step_closed [OF fc Cons.prems(2) Cons.prems(3) st]
  have r: "r \<noteq> Panic" and h1: "h1 = h" and p1: "pipes w1 = pipes w"
    and q1: "procs w1 = procs w" and d1: "dirs w1 = dirs w" by simp_all
  obtain rs1 h2 w2 where rn: "run lib cs h w1 = (rs1, h2, w2)"
    by (cases "run lib cs h w1") auto
  from Cons.prems(3) p1 have cw: "\<not> can_write p True w1"
    by (simp add: can_write_def)
  from Cons.IH [OF fcs Cons.prems(2) cw rn]
  have ih: "Panic \<notin> set rs1 \<and> h2 = h \<and> pipes w2 = pipes w1 \<and> procs w2 = procs w1
            \<and> dirs w2 = dirs w1" .
  from Cons.prems(4) st h1 rn r have "rs = r # rs1" and "h' = h2" and "w' = w2"
    by (cases r; simp)+
  with ih r p1 q1 d1 show ?case by simp
qed

text \<open>
  C4.  As stated the claim fails: no callback looks whether the handler has been closed,
  and \<^verbatim>\<open>OnClose\<close> leaves the encoder in place.  After a publish and a close, a video
  frame that decodes is encoded and a write to pipe 0 is attempted; it fails on the
  closed pipe, the failure is logged and the callback returns success.
\<close>

theorem frame_after_close_attempts_write:
  "fst (run lib0 [Publish all_ok ''stream1'', Close, Video all_ok 40 (Reader [1, 2, 3] False)]
          Handler0 world0) = [Ok, Ok, Ok]
   \<and> trace (snd (snd (run lib0 [Publish all_ok ''stream1'', Close,
                               Video all_ok 40 (Reader [1, 2, 3] False)] Handler0 world0)))
     = trace (snd (snd (run lib0 [Publish all_ok ''stream1'', Close] Handler0 world0)))
       @ [EvWrite 0, EvLog ''Failed to write video'']"
  by code_simp

lemma frames_run_length:
  assumes "\<forall>c\<in>set cs. is_frame c" and "flvEnc h = Some p" and "\<not> can_write p True w"
    and "run lib cs h w = (rs, h', w')"
  shows "length rs = length cs"
  using assms
proof (induction cs arbitrary: w rs h' w')
  case Nil
  then show ?case by simp
next
  case (Cons c cs)
  obtain r h1 w1 where st: "step lib c h w = (r, h1, w1)"
    by (cases "step lib c h w") auto
  from Cons.prems have fc: "is_frame c" and fcs: "\<forall>c\<in>set cs. is_frame c" by simp_all
  from frame_step_closed [OF fc Cons.prems(2) Cons.prems(3) st]
  have r: "r \<noteq> Panic" and h1: "h1 = h" and p1: "pipes w1 = pipes w" by simp_all
  obtain rs1 h2 w2 where rn: "run lib cs h w1 = (rs1, h2, w2)"
    by (cases "run lib cs h w1") auto
  from Cons.prems(3) p1 have cw: "\<not> can_write p True w1"
    by (simp add: can_write_def)
  from Cons.IH [OF fcs Cons.prems(2) cw rn] have ih: "length rs1 = length cs" .
  from Cons.prems(4) st h1 rn r have "rs = r # rs1"
    by (cases r; simp)+
  with ih show ?case by simp
qed

lemma publish_ok_same_pipe:
  "OnPublish oc name h0 w0 = (Ok, h, w) \<Longrightarrow> \<exists>p. flvEnc h = Some p \<and> ffmpegIn h = Some p"
  by (auto simp: OnPublish_def Let_def NewEncoder_def StdinPipe_def Start_def MkdirAll_def
      split: if_splits prod.splits option.splits bool.splits)

lemma closed_pipe_frames:
  assumes "flvEnc h = Some p" and "\<not> can_write p True w"
  shows "(DecodeScriptData lib bs = None \<longrightarrow>
            OnSetDataFrame lib oc ts bs h w
              = (Ok, h, w\<lparr>trace := trace w @ [EvLog ''Failed to decode script data'']\<rparr>))
       \<and> (DecodeScriptData lib bs = Some script \<longrightarrow>
            OnSetDataFrame lib oc ts bs h w
              = (Ok, h, w\<lparr>trace := trace w @ [EvWrite p, EvLog ''Failed to write script data'']\<rparr>))
       \<and> (DecodeAudioData lib rd = None \<longrightarrow> OnAudio lib oc ts rd h w = (Err ErrDecode, h, w))
       \<and> (DecodeAudioData lib rd = Some (hdr, body) \<and> io_Copy body = None \<longrightarrow>
            OnAudio lib oc ts rd h w = (Err ErrCopy, h, w))
       \<and> (DecodeAudioData lib rd = Some (hdr, body) \<and> io_Copy body = Some buf \<longrightarrow>
            OnAudio lib oc ts rd h w
              = (Ok, h, w\<lparr>trace := trace w @ [EvWrite p, EvLog ''Failed to write audio'']\<rparr>))
       \<and> (DecodeVideoData lib rd = None \<longrightarrow> OnVideo lib oc ts rd h w = (Err ErrDecode, h, w))
       \<and> (DecodeVideoData lib rd = Some (hdr, body) \<and> io_Copy body = None \<longrightarrow>
            OnVideo lib oc ts rd h w = (Err ErrCopy, h, w))
       \<and> (DecodeVideoData lib rd = Some (hdr, body) \<and> io_Copy body = Some buf \<longrightarrow>
            OnVideo lib oc ts rd h w
              = (Ok, h, w\<lparr>trace := trace w @ [EvWrite p, EvLog ''Failed to write video'']\<rparr>))"
proof -
  from assms(2) have nw: "\<not> can_write p (write_ok oc) w"
    by (auto simp: can_write_def)
  from assms(1) nw show ?thesis
    by (simp add: OnSetDataFrame_def OnAudio_def OnVideo_def Encode_def pipe_Write_def
          logf_def emit_def)
qed

text \<open>
  C4, amended.  First, every \<^verbatim>\<open>OnPublish\<close> that returns success leaves the encoder
  and the pipe handle of the handler on one and the same pipe.  Second, when a handler in
  that condition is closed and any run of frame callbacks follows: the close returns;
  every callback of the run returns and none panics; the handler stays as it was; the
  pipes (their number and their contents), the processes and the directories stay as the
  close left them, so no byte reaches the pipe and nothing is acquired again; and the
  pipe stays unwritable.  The callbacks are no no-ops, though.  Whichever frame callback
  comes next, a metadata, audio or video payload that decodes (and whose body can be
  copied) is passed to the encoder, the write is attempted on the closed pipe, the
  failure is logged and the callback returns success; a metadata payload that does not
  decode is logged and dropped with success; an audio or video payload that does not
  decode, or whose body cannot be read, returns its error with nothing written or logged.
\<close>

theorem frames_after_close:
  "(OnPublish oc0 name h0 w0 = (Ok, hp, wp) \<longrightarrow>
      (\<exists>q. flvEnc hp = Some q \<and> ffmpegIn hp = Some q))
   \<and> (flvEnc h = Some p \<and> ffmpegIn h = Some p \<and> OnClose h w = (r, hc, wc)
        \<and> (\<forall>c\<in>set cs. is_frame c) \<and> run lib cs hc wc = (rs, hx, wx) \<longrightarrow>
      r = Ok \<and> hc = h \<and> hx = h \<and> Panic \<notin> set rs \<and> length rs = length cs
      \<and> pipes wx = pipes wc \<and> procs wx = procs wc \<and> dirs wx = dirs wc
      \<and> \<not> can_write p True wx
      \<and> (DecodeScriptData lib bs = None \<longrightarrow>
            OnSetDataFrame lib oc ts bs hx wx
              = (Ok, h, wx\<lparr>trace := trace wx @ [EvLog ''Failed to decode script data'']\<rparr>))
      \<and> (DecodeScriptData lib bs = Some script \<longrightarrow>
            OnSetDataFrame lib oc ts bs hx wx
              = (Ok, h, wx\<lparr>trace := trace wx @ [EvWrite p, EvLog ''Failed to write script data'']\<rparr>))
      \<and> (DecodeAudioData lib rd = None \<longrightarrow> OnAudio lib oc ts rd hx wx = (Err ErrDecode, h, wx))
      \<and> (DecodeAudioData lib rd = Some (hdr, body) \<and> io_Copy body = None \<longrightarrow>
            OnAudio lib oc ts rd hx wx = (Err ErrCopy, h, wx))
      \<and> (DecodeAudioData lib rd = Some (hdr, body) \<and> io_Copy body = Some buf \<longrightarrow>
            OnAudio lib oc ts rd hx wx
              = (Ok, h, wx\<lparr>trace := trace wx @ [EvWrite p, EvLog ''Failed to write audio'']\<rparr>))
      \<and> (DecodeVideoData lib rd = None \<longrightarrow> OnVideo lib oc ts rd hx wx = (Err ErrDecode, h, wx))
      \<and> (DecodeVideoData lib rd = Some (hdr, body) \<and> io_Copy body = None \<longrightarrow>
            OnVideo lib oc ts rd hx wx = (Err ErrCopy, h, wx))
      \<and> (DecodeVideoData lib rd = Some (hdr, body) \<and> io_Copy body = Some buf \<longrightarrow>
            OnVideo lib oc ts rd hx wx
              = (Ok, h, wx\<lparr>trace := trace wx @ [EvWrite p, EvLog ''Failed to write video'']\<rparr>)))"
  (is "?A \<and> (?H \<longrightarrow> ?C)")
proof (rule conjI)
  show ?A by (blast dest: publish_ok_same_pipe)
next
  show "?H \<longrightarrow> ?C"
  proof (rule impI)
    assume a: ?H
    then have e: "flvEnc h = Some p" and i: "ffmpegIn h = Some p"
      and cl: "OnClose h w = (r, hc, wc)" and fr: "\<forall>c\<in>set cs. is_frame c"
      and rn1: "run lib cs hc wc = (rs, hx, wx)" by simp_all
    from OnClose_closes [OF e i cl] have r: "r = Ok" and hc: "hc = h"
      and cw: "\<not> can_write p True wc" by simp_all
    from rn1 hc have rn: "run lib cs h wc = (rs, hx, wx)" by simp
    from frames_run_closed [OF fr e cw rn]
    have np: "Panic \<notin> set rs" and hx: "hx = h" and ps: "pipes wx = pipes wc"
      and qs: "procs wx = procs wc" and ds: "dirs wx = dirs wc" by simp_all
    from frames_run_length [OF fr e cw rn] have len: "length rs = length cs" .
    from cw ps have cw2: "\<not> can_write p True wx" by (simp add: can_write_def)
    note fs = closed_pipe_frames [OF e cw2, of lib bs oc ts script rd hdr body buf]
    show ?C
      using r hc hx np len ps qs ds cw2 fs by simp
  qed
qed

theorem frames_after_close_witness:
  "OnPublish all_ok ''stream1'' Handler0 world0 = (Ok, h_pub, w_pub)
   \<and> flvEnc h_pub = Some 0 \<and> ffmpegIn h_pub = Some 0
   \<and> OnClose h_pub w_pub = (Ok, h_pub, w_closed)
   \<and> is_frame (Video all_ok 40 (Reader [1, 2] False))
   \<and> is_frame (Audio all_ok 41 (Reader [] False))
   \<and> run lib1 [Video all_ok 40 (Reader [1, 2] False), Audio all_ok 41 (Reader [] False)]
         h_pub w_closed
       = ([Ok, Err ErrDecode], h_pub, w_after)
   \<and> pipes w_after = pipes w_closed
   \<and> DecodeScriptData lib1 [] = Some []
   \<and> OnSetDataFrame lib1 all_ok 42 [] h_pub w_after
       = (Ok, h_pub,
          w_after\<lparr>trace := trace w_after @ [EvWrite 0, EvLog ''Failed to write script data'']\<rparr>)
   \<and> DecodeVideoData lib1 (Reader [1, 2] False) = Some ([1], Reader [2] False)
   \<and> io_Copy (Reader [2] False) = Some [2]
   \<and> OnVideo lib1 all_ok 42 (Reader [1, 2] False) h_pub w_after
       = (Ok, h_pub,
          w_after\<lparr>trace := trace w_after @ [EvWrite 0, EvLog ''Failed to write video'']\<rparr>)
   \<and> DecodeAudioData lib1 (Reader [] False) = None
   \<and> OnAudio lib1 all_ok 42 (Reader [] False) h_pub w_after = (Err ErrDecode, h_pub, w_after)"
proof -
  let ?cs = "[Video all_ok 40 (Reader [1, 2] False), Audio all_ok 41 (Reader [] False)]"
  have e: "flvEnc h_pub = Some 0" and i: "ffmpegIn h_pub = Some 0"
    by (simp_all add: h_pub_def)
  have fr: "\<forall>c\<in>set ?cs. is_frame c" by simp
  have rn: "run lib1 ?cs h_pub w_closed = ([Ok, Err ErrDecode], h_pub, w_after)"
    by code_simp
  have dec: "DecodeScriptData lib1 [] = Some []"
    "DecodeVideoData lib1 (Reader [1, 2] False) = Some ([1], Reader [2] False)"
    "io_Copy (Reader [2] False) = Some [2]"
    "DecodeAudioData lib1 (Reader [] False) = None"
    by (simp_all add: lib1_def split_first_def io_Copy_def)
  note good = frames_after_close
    [where ?oc0.0 = all_ok and name = "''stream1''" and ?h0.0 = Handler0 and ?w0.0 = world0
       and hp = h_pub and wp = w_pub
       and h = h_pub and p = 0 and w = w_pub and r = Ok and hc = h_pub and wc = w_closed
       and cs = ?cs and lib = lib1 and rs = "[Ok, Err ErrDecode]" and hx = h_pub
       and wx = w_after and bs = "[]" and script = "[]" and oc = all_ok and ts = 42
       and rd = "Reader [1, 2] False" and hdr = "[1]" and body = "Reader [2] False"
       and buf = "[2]"]
  note bad = frames_after_close
    [where ?oc0.0 = all_ok and name = "''stream1''" and ?h0.0 = Handler0 and ?w0.0 = world0
       and hp = h_pub and wp = w_pub
       and h = h_pub and p = 0 and w = w_pub and r = Ok and hc = h_pub and wc = w_closed
       and cs = ?cs and lib = lib1 and rs = "[Ok, Err ErrDecode]" and hx = h_pub
       and wx = w_after and bs = "[]" and script = "[]" and oc = all_ok and ts = 42
       and rd = "Reader [] False" and hdr = "[1]" and body = "Reader [2] False"
       and buf = "[2]"]
  from good bad publish_stream1 e i close_published fr rn dec show ?thesis
    by simp
qed

end
